theory Spec2Isabelle
  imports Complex_Main "HOL-Library.Word" "HOL-Library.Monad_Syntax"
begin

section \<open>Tables of the ML logs transformer\<close>

text \<open>
  The program (\<^verbatim>\<open>app/etl.py\<close>) is a sequence of Spark SQL transformations. A
  DataFrame is modelled as the list of its rows, a row as a record with one field per
  column, and a nullable column as an \<open>option\<close> (\<open>None\<close> is SQL \<open>NULL\<close>). Spark
  fixes no row order: that the lists below keep the order of their input is a choice
  of the model, and the properties are about which rows a table has and how often.

  \<open>IntegerType\<close> is a 32-bit word. \<open>FloatType\<close> is modelled by its finite values as
  rationals, with their order; NaN and the infinities are outside the model.
\<close>

type_synonym int32 = "32 word"
type_synonym float32 = rat

text \<open>The schema of \<^verbatim>\<open>load_experiments\<close>.\<close>

record experiment_row =
  expId :: "int32 option"
  expName :: "string option"

text \<open>The schema of \<^verbatim>\<open>load_metrics\<close>.\<close>

record metric_row =
  metricId :: "int32 option"
  metricName :: "string option"

text \<open>The columns that \<^verbatim>\<open>calculate_experiment_final_scores\<close> produces.\<close>

record score_row =
  expId :: "int32 option"
  metricId :: "int32 option"
  maxValue :: "float32 option"
  minValue :: "float32 option"

text \<open>The schema of \<^verbatim>\<open>load_logs\<close>.\<close>

record log_row =
  logId :: "string option"
  expId :: "int32 option"
  metricId :: "int32 option"
  valid :: "bool option"
  createdAt :: "string option"
  ingestedAt :: "string option"
  step :: "int32 option"
  "value" :: "float32 option"

text \<open>The result of the first join: the log columns and \<open>expName\<close>.\<close>

record logs_experiments_row = log_row +
  expName :: "string option"

text \<open>The result of the second join, which \<^verbatim>\<open>join_tables\<close> projects on its ten columns.\<close>

record joined_row = logs_experiments_row +
  metricName :: "string option"

section \<open>The metrics table\<close>

definition load_metrics :: "metric_row list" where
  "load_metrics =
     [\<lparr>metric_row.metricId = Some 0, metric_row.metricName = Some ''Loss''\<rparr>,
      \<lparr>metric_row.metricId = Some 1, metric_row.metricName = Some ''Accuracy''\<rparr>]"

section \<open>Joins\<close>

text \<open>
  The condition of an equi-join: SQL equality, which holds for no \<open>NULL\<close> key.
\<close>

fun key_eq :: "'k option \<Rightarrow> 'k option \<Rightarrow> bool" where
  "key_eq (Some a) (Some b) = (a = b)"
| "key_eq _ _ = False"

text \<open>
  \<^verbatim>\<open>left.join(right, on=key, how="inner")\<close>: one output row for every pair of a left
  row and a right row with equal keys.
\<close>

definition inner_join ::
  "('l \<Rightarrow> 'k option) \<Rightarrow> ('r \<Rightarrow> 'k option) \<Rightarrow> ('l \<Rightarrow> 'r \<Rightarrow> 'o) \<Rightarrow> 'l list \<Rightarrow> 'r list \<Rightarrow> 'o list" where
  "inner_join lkey rkey row ls rs =
     concat (map (\<lambda>l. map (row l) (filter (\<lambda>r. key_eq (lkey l) (rkey r)) rs)) ls)"

definition with_experiment :: "log_row \<Rightarrow> experiment_row \<Rightarrow> logs_experiments_row" where
  "with_experiment l e =
     \<lparr>logId = logId l, expId = log_row.expId l, metricId = log_row.metricId l,
      valid = valid l, createdAt = createdAt l, ingestedAt = ingestedAt l,
      step = step l, value = value l, expName = experiment_row.expName e\<rparr>"

definition with_metric :: "logs_experiments_row \<Rightarrow> metric_row \<Rightarrow> joined_row" where
  "with_metric le m =
     \<lparr>logId = logId le, expId = log_row.expId le, metricId = log_row.metricId le,
      valid = valid le, createdAt = createdAt le, ingestedAt = ingestedAt le,
      step = step le, value = value le, expName = logs_experiments_row.expName le,
      metricName = metric_row.metricName m\<rparr>"

definition join_tables ::
  "log_row list \<Rightarrow> experiment_row list \<Rightarrow> metric_row list \<Rightarrow> joined_row list" where
  "join_tables logs experiments metrics =
     (let logs_experiments =
            inner_join log_row.expId experiment_row.expId with_experiment logs experiments;
          joined_tables =
            inner_join log_row.metricId metric_row.metricId with_metric logs_experiments metrics
      in joined_tables)"

text \<open>The rows of a right table that a log row matches.\<close>

definition matching_experiments :: "log_row \<Rightarrow> experiment_row list \<Rightarrow> experiment_row list" where
  "matching_experiments l experiments =
     filter (\<lambda>e. key_eq (log_row.expId l) (experiment_row.expId e)) experiments"

definition matching_metrics :: "log_row \<Rightarrow> metric_row list \<Rightarrow> metric_row list" where
  "matching_metrics l metrics =
     filter (\<lambda>m. key_eq (log_row.metricId l) (metric_row.metricId m)) metrics"

text \<open>The log row an output row of the join was built from: its eight log columns.\<close>

definition log_of :: "joined_row \<Rightarrow> log_row" where
  "log_of j = log_row.truncate j"

section \<open>Timestamps\<close>

text \<open>
  \<^verbatim>\<open>to_timestamp(col, "yyyy-MM-dd'T'HH:mm:ss")\<close>. The pattern is read strictly: four
  digits of year, two of every other field, the separators as written (the letter in
  either case), nothing before or after, and a date and a time of day that exist in the
  proleptic Gregorian calendar (years 0001 to 9999, written without a sign). A
  timestamp is a number of microseconds since 1970-01-01T00:00:00, the session time zone
  being UTC.

  \<open>to_timestamp\<close> below is the timestamp of a column where the engine raises nothing:
  \<open>NULL\<close> for a \<open>NULL\<close> string and for a string that the pattern does not parse, as
  Spark documents the function outside ANSI mode. What the engine raises for such a
  string, under its configuration, is in \<open>to_timestamp_under\<close> further down.
\<close>

definition digit_of :: "char \<Rightarrow> nat option" where
  "digit_of c =
     (let n = (of_char c :: nat) in if 48 \<le> n \<and> n \<le> 57 then Some (n - 48) else None)"

fun take_number :: "nat \<Rightarrow> nat \<Rightarrow> string \<Rightarrow> (nat \<times> string) option" where
  "take_number 0 acc s = Some (acc, s)"
| "take_number (Suc n) acc [] = None"
| "take_number (Suc n) acc (c # s) =
     (case digit_of c of None \<Rightarrow> None | Some d \<Rightarrow> take_number n (10 * acc + d) s)"

text \<open>The parser compares the text of the pattern without regard to case.\<close>

definition upper_case :: "char \<Rightarrow> char" where
  "upper_case c =
     (let n = (of_char c :: nat) in if 97 \<le> n \<and> n \<le> 122 then char_of (n - 32) else c)"

fun take_literal :: "char \<Rightarrow> string \<Rightarrow> string option" where
  "take_literal c [] = None"
| "take_literal c (x # s) = (if upper_case x = upper_case c then Some s else None)"

definition is_leap_year :: "nat \<Rightarrow> bool" where
  "is_leap_year y = (y mod 4 = 0 \<and> (y mod 100 \<noteq> 0 \<or> y mod 400 = 0))"

definition days_in_month :: "nat \<Rightarrow> nat \<Rightarrow> nat" where
  "days_in_month y m =
     (if m = 2 then (if is_leap_year y then 29 else 28)
      else if m = 4 \<or> m = 6 \<or> m = 9 \<or> m = 11 then 30 else 31)"

definition valid_fields :: "nat \<Rightarrow> nat \<Rightarrow> nat \<Rightarrow> nat \<Rightarrow> nat \<Rightarrow> nat \<Rightarrow> bool" where
  "valid_fields y m d hh mm ss =
     (1 \<le> y \<and> 1 \<le> m \<and> m \<le> 12 \<and> 1 \<le> d \<and> d \<le> days_in_month y m
      \<and> hh \<le> 23 \<and> mm \<le> 59 \<and> ss \<le> 59)"

text \<open>Days from 0001-01-01 to the first day of year \<open>y\<close>, and to 1970-01-01.\<close>

definition days_before_year :: "nat \<Rightarrow> int" where
  "days_before_year y =
     (let p = int y - 1 in 365 * p + p div 4 - p div 100 + p div 400)"

definition days_before_month :: "nat \<Rightarrow> nat \<Rightarrow> int" where
  "days_before_month y m = int (sum_list (map (days_in_month y) [1..<m]))"

definition epoch_seconds :: "nat \<Rightarrow> nat \<Rightarrow> nat \<Rightarrow> nat \<Rightarrow> nat \<Rightarrow> nat \<Rightarrow> int" where
  "epoch_seconds y m d hh mm ss =
     (days_before_year y + days_before_month y m + (int d - 1) - 719162) * 86400
     + int hh * 3600 + int mm * 60 + int ss"

definition parse_timestamp :: "string \<Rightarrow> int option" where
  "parse_timestamp s = do {
     (y, s1) \<leftarrow> take_number 4 0 s;
     s2 \<leftarrow> take_literal CHR ''-'' s1;
     (m, s3) \<leftarrow> take_number 2 0 s2;
     s4 \<leftarrow> take_literal CHR ''-'' s3;
     (d, s5) \<leftarrow> take_number 2 0 s4;
     s6 \<leftarrow> take_literal CHR ''T'' s5;
     (hh, s7) \<leftarrow> take_number 2 0 s6;
     s8 \<leftarrow> take_literal CHR '':'' s7;
     (mm, s9) \<leftarrow> take_number 2 0 s8;
     s10 \<leftarrow> take_literal CHR '':'' s9;
     (ss, s11) \<leftarrow> take_number 2 0 s10;
     if s11 = [] \<and> valid_fields y m d hh mm ss
     then Some (1000000 * epoch_seconds y m d hh mm ss)
     else None
   }"

definition to_timestamp :: "string option \<Rightarrow> int option" where
  "to_timestamp c = (case c of None \<Rightarrow> None | Some s \<Rightarrow> parse_timestamp s)"

text \<open>\<^verbatim>\<open>unix_timestamp\<close> of a timestamp column: its whole seconds, \<open>NULL\<close> for \<open>NULL\<close>.\<close>

definition unix_timestamp :: "int option \<Rightarrow> int option" where
  "unix_timestamp c = (case c of None \<Rightarrow> None | Some t \<Rightarrow> Some (t div 1000000))"

text \<open>
  What it is for a string to have the format, said without the parser: the shape
  \<^verbatim>\<open>dddd-dd-ddTdd:dd:dd\<close> (\<^verbatim>\<open>d\<close> a decimal digit, \<^verbatim>\<open>T\<close> in either case) and fields
  in range.
\<close>

definition is_digit :: "char \<Rightarrow> bool" where
  "is_digit c = (c \<in> set ''0123456789'')"

definition has_shape :: "string \<Rightarrow> bool" where
  "has_shape s =
     list_all2 (\<lambda>p c. if p = CHR ''d'' then is_digit c else upper_case c = p)
       ''dddd-dd-ddTdd:dd:dd'' s"

definition digits_value :: "string \<Rightarrow> nat" where
  "digits_value ds = foldl (\<lambda>acc c. 10 * acc + (of_char c - 48)) 0 ds"

definition field :: "string \<Rightarrow> nat \<Rightarrow> nat \<Rightarrow> nat" where
  "field s i n = digits_value (take n (drop i s))"

definition matches_format :: "string \<Rightarrow> bool" where
  "matches_format s =
     (has_shape s \<and>
      valid_fields (field s 0 4) (field s 5 2) (field s 8 2)
                   (field s 11 2) (field s 14 2) (field s 17 2))"


section \<open>Column expressions with \<open>NULL\<close>\<close>

text \<open>
  Subtraction of two \<open>bigint\<close> columns, the division \<^verbatim>\<open>/ 3600\<close> and the comparison
  \<^verbatim>\<open>> hours\<close> with the integer that the signature of \<^verbatim>\<open>filter_late_logs\<close> asks
  for: each is \<open>NULL\<close> when an operand is. Spark divides as \<open>double\<close>; the quotient is
  kept exact here, a rational. \<^verbatim>\<open>DataFrame.filter\<close> keeps the rows whose condition is
  true, so neither those where it is false nor those where it is \<open>NULL\<close>.
\<close>

fun minus_sql :: "int option \<Rightarrow> int option \<Rightarrow> int option" where
  "minus_sql (Some a) (Some b) = Some (a - b)"
| "minus_sql _ _ = None"

fun divide_sql :: "int option \<Rightarrow> int \<Rightarrow> rat option" where
  "divide_sql (Some a) b = (if b = 0 then None else Some (of_int a / of_int b))"
| "divide_sql None b = None"

fun greater_sql :: "rat option \<Rightarrow> int \<Rightarrow> bool option" where
  "greater_sql (Some a) b = Some (of_int b < a)"
| "greater_sql None b = None"

definition filter_sql :: "('r \<Rightarrow> bool option) \<Rightarrow> 'r list \<Rightarrow> 'r list" where
  "filter_sql cond rows = filter (\<lambda>r. cond r = Some True) rows"

section \<open>The filter of late logs\<close>

text \<open>
  \<open>filter_late_logs\<close> is the table that the function returns. When the engine raises
  for a timestamp of the input, the function returns none: that is
  \<open>filter_late_logs_under\<close> further down, which returns this table whenever it returns.
\<close>

record with_created_row = joined_row +
  created_at_ts :: "int option"

record with_ingested_row = with_created_row +
  ingested_at_ts :: "int option"

record filtered_row = with_ingested_row +
  time_diff_hours :: "rat option"

definition time_diff_col :: "with_ingested_row \<Rightarrow> rat option" where
  "time_diff_col r =
     divide_sql (minus_sql (unix_timestamp (ingested_at_ts r)) (unix_timestamp (created_at_ts r)))
                3600"

definition filter_late_logs :: "joined_row list \<Rightarrow> int \<Rightarrow> filtered_row list" where
  "filter_late_logs data hours =
     (let data1 = map (\<lambda>r. joined_row.extend r
                         (with_created_row.fields (to_timestamp (createdAt r)))) data;
          data2 = map (\<lambda>r. with_created_row.extend r
                         (with_ingested_row.fields (to_timestamp (ingestedAt r)))) data1;
          data_with_time_diff =
                  map (\<lambda>r. with_ingested_row.extend r
                         (filtered_row.fields (time_diff_col r))) data2;
          filtered_logs =
                  filter_sql (\<lambda>r. greater_sql (time_diff_hours r) hours) data_with_time_diff
      in filtered_logs)"

text \<open>The lag of a joined row in seconds, when both of its timestamps parse.\<close>

definition lag_seconds :: "'a log_row_scheme \<Rightarrow> int option" where
  "lag_seconds r =
     minus_sql (unix_timestamp (to_timestamp (ingestedAt r)))
               (unix_timestamp (to_timestamp (createdAt r)))"

text \<open>The row that the filter builds from a joined row: its three columns added.\<close>

definition with_time_diff :: "joined_row \<Rightarrow> filtered_row" where
  "with_time_diff r =
     joined_row.extend r
       \<lparr>created_at_ts = to_timestamp (createdAt r),
        ingested_at_ts = to_timestamp (ingestedAt r),
        time_diff_hours = divide_sql (lag_seconds r) 3600\<rparr>"

text \<open>
  The condition of the filter as the specification words it: the lag in seconds over
  3600 is strictly more than the threshold; it is false of a row without a lag.
\<close>

definition is_late :: "joined_row \<Rightarrow> int \<Rightarrow> bool" where
  "is_late r hours =
     (case lag_seconds r of None \<Rightarrow> False
      | Some s \<Rightarrow> (of_int hours :: rat) < of_int s / 3600)"

section \<open>The filter under a configuration of the engine\<close>

text \<open>
  \<open>to_timestamp\<close> and \<open>filter_late_logs\<close> above give the timestamp and the table
  where the engine raises nothing. Whether it raises for a string that the pattern does
  not parse depends on two settings, which \<^verbatim>\<open>get_spark\<close> leaves at the defaults of the
  installed Spark:
  \<^item> \<^verbatim>\<open>spark.sql.ansi.enabled\<close> (off by default in Spark 3, on in Spark 4): when on, a
    string that does not parse is an error, not \<open>NULL\<close>;
  \<^item> \<^verbatim>\<open>spark.sql.legacy.timeParserPolicy\<close> (\<^verbatim>\<open>EXCEPTION\<close> by default in Spark 3,
    \<^verbatim>\<open>CORRECTED\<close> in Spark 4): with \<^verbatim>\<open>EXCEPTION\<close>, a string that does not parse but that
    the parser of Spark 2 reads is an error. Which strings that parser reads is the
    engine's: the policy carries it as a parameter. The policy \<^verbatim>\<open>LEGACY\<close>, no default,
    replaces the parser and is outside the model.
  A \<open>NULL\<close> string is \<open>NULL\<close> under every configuration.
\<close>

datatype time_parser_policy = EXCEPTION "string \<Rightarrow> bool" | CORRECTED

record spark_conf =
  ansi_enabled :: bool
  time_parser_policy :: time_parser_policy

datatype spark_error = SparkUpgradeException | DateTimeException

definition spark2_reads :: "spark_conf \<Rightarrow> string \<Rightarrow> bool" where
  "spark2_reads cf s =
     (case time_parser_policy cf of EXCEPTION reads \<Rightarrow> reads s | CORRECTED \<Rightarrow> False)"

definition to_timestamp_under :: "spark_conf \<Rightarrow> string option \<Rightarrow> spark_error + int option" where
  "to_timestamp_under cf c =
     (case c of
        None \<Rightarrow> Inr None
      | Some s \<Rightarrow>
          (case parse_timestamp s of
             Some t \<Rightarrow> Inr (Some t)
           | None \<Rightarrow>
               if spark2_reads cf s then Inl SparkUpgradeException
               else if ansi_enabled cf then Inl DateTimeException
               else Inr None))"





text \<open>A column with a string that is not of the format.\<close>

definition malformed :: "string option \<Rightarrow> bool" where
  "malformed c = (case c of None \<Rightarrow> False | Some s \<Rightarrow> \<not> matches_format s)"


section \<open>The final scores\<close>

text \<open>
  \<^verbatim>\<open>groupBy("expId", "metricId")\<close> makes one group for every distinct pair of the two
  columns in the table (\<open>NULL\<close> is a key like another). The aggregates \<^verbatim>\<open>max\<close> and
  \<^verbatim>\<open>min\<close> start from \<open>NULL\<close> and skip the \<open>NULL\<close> values of the column.
\<close>

definition group_key :: "'a log_row_scheme \<Rightarrow> int32 option \<times> int32 option" where
  "group_key r = (log_row.expId r, log_row.metricId r)"

fun max_update :: "float32 option \<Rightarrow> float32 option \<Rightarrow> float32 option" where
  "max_update acc None = acc"
| "max_update None (Some v) = Some v"
| "max_update (Some a) (Some v) = Some (max a v)"

fun min_update :: "float32 option \<Rightarrow> float32 option \<Rightarrow> float32 option" where
  "min_update acc None = acc"
| "min_update None (Some v) = Some v"
| "min_update (Some a) (Some v) = Some (min a v)"

definition max_sql :: "float32 option list \<Rightarrow> float32 option" where
  "max_sql vs = foldl max_update None vs"

definition min_sql :: "float32 option list \<Rightarrow> float32 option" where
  "min_sql vs = foldl min_update None vs"

definition group_of :: "int32 option \<times> int32 option \<Rightarrow> 'a log_row_scheme list \<Rightarrow> 'a log_row_scheme list" where
  "group_of k data = filter (\<lambda>r. group_key r = k) data"

definition calculate_experiment_final_scores :: "'a log_row_scheme list \<Rightarrow> score_row list" where
  "calculate_experiment_final_scores data =
     map (\<lambda>k. \<lparr>score_row.expId = fst k, score_row.metricId = snd k,
               maxValue = max_sql (map value (group_of k data)),
               minValue = min_sql (map value (group_of k data))\<rparr>)
         (remdups (map group_key data))"

text \<open>The non-\<open>NULL\<close> values of a group, and the extrema as the specification words them.\<close>

definition group_values :: "int32 option \<times> int32 option \<Rightarrow> 'a log_row_scheme list \<Rightarrow> float32 list" where
  "group_values k data = List.map_filter value (group_of k data)"

definition greatest_of :: "float32 list \<Rightarrow> float32 option" where
  "greatest_of vs = (if vs = [] then None else Some (Max (set vs)))"

definition least_of :: "float32 list \<Rightarrow> float32 option" where
  "least_of vs = (if vs = [] then None else Some (Min (set vs)))"

text \<open>The pairs of the table that have a row with a value, each once.\<close>

definition keys_with_value :: "'a log_row_scheme list \<Rightarrow> (int32 option \<times> int32 option) list" where
  "keys_with_value data = remdups (map group_key (filter (\<lambda>r. value r \<noteq> None) data))"

definition score_key :: "score_row \<Rightarrow> int32 option \<times> int32 option" where
  "score_key s = (score_row.expId s, score_row.metricId s)"

section \<open>The Spark session\<close>

text \<open>
  \<^verbatim>\<open>SparkSession.builder ... getOrCreate()\<close> is the engine's: it is a parameter here,
  giving for a master URL, an application name and the number of calls made before this
  one either a session or what it raises. What is raised is a Python \<open>Exception\<close> (every
  error of the engine is one) or a \<open>BaseException\<close> outside that class, such as a
  keyboard interrupt, which \<^verbatim>\<open>except Exception\<close> does not catch. The state is the text
  printed so far and the number of calls made to the engine.
\<close>

datatype raised = Exception string | BaseException string

record world =
  printed :: "string list"
  calls :: nat

type_synonym 's engine = "string \<Rightarrow> string \<Rightarrow> nat \<Rightarrow> raised + 's"

definition get_spark :: "'s engine \<Rightarrow> string \<Rightarrow> string \<Rightarrow> world \<Rightarrow> (raised + 's) \<times> world" where
  "get_spark getOrCreate master app_name w =
     (let w1 = w\<lparr>calls := calls w + 1\<rparr> in
      case getOrCreate master app_name (calls w) of
        Inr spark \<Rightarrow> (Inr spark, w1)
      | Inl (Exception e) \<Rightarrow>
          (Inl (Exception e),
           w1\<lparr>printed := printed w1 @ [''Error initializing Spark session: '' @ e]\<rparr>)
      | Inl (BaseException e) \<Rightarrow> (Inl (BaseException e), w1))"

section \<open>The end-to-end scenario\<close>

text \<open>
  The two log records and the experiment record of the scenario; the columns that the
  records do not give (\<open>valid\<close>, \<open>step\<close>) are \<open>NULL\<close>, as the loader leaves them.
\<close>

definition scenario_logs :: "log_row list" where
  "scenario_logs =
     [\<lparr>logId = Some ''a'', expId = Some 1, metricId = Some 0, valid = None,
       createdAt = Some ''2024-01-01T00:00:00'', ingestedAt = Some ''2024-01-01T05:00:00'',
       step = None, value = Some 2\<rparr>,
      \<lparr>logId = Some ''b'', expId = Some 1, metricId = Some 0, valid = None,
       createdAt = Some ''2024-01-01T00:00:00'', ingestedAt = Some ''2024-01-01T00:30:00'',
       step = None, value = Some 9\<rparr>]"

definition scenario_experiments :: "experiment_row list" where
  "scenario_experiments =
     [\<lparr>experiment_row.expId = Some 1, experiment_row.expName = Some ''Exp1''\<rparr>]"


text \<open>A log row of experiment 1 and metric 0 with the given value.\<close>

definition log_with_value :: "float32 option \<Rightarrow> log_row" where
  "log_with_value v =
     \<lparr>logId = Some ''d'', expId = Some 1, metricId = Some 0, valid = Some True,
      createdAt = Some ''2024-01-01T00:00:00'', ingestedAt = Some ''2024-01-01T02:00:00'',
      step = Some 1, value = v\<rparr>"

section \<open>Properties of the join\<close>

lemma log_of_with_metric:
  "log_of (with_metric (with_experiment l e) m) = l"
  by (simp add: log_of_def with_metric_def with_experiment_def log_row.truncate_def)

lemma inner_join_Nil: "inner_join lkey rkey row [] rs = []"
  by (simp add: inner_join_def)

lemma inner_join_Cons:
  "inner_join lkey rkey row (l # ls) rs =
     map (row l) (filter (\<lambda>r. key_eq (lkey l) (rkey r)) rs) @ inner_join lkey rkey row ls rs"
  by (simp add: inner_join_def)

lemma inner_join_append:
  "inner_join lkey rkey row (ls @ ls') rs =
     inner_join lkey rkey row ls rs @ inner_join lkey rkey row ls' rs"
  by (simp add: inner_join_def)

lemma with_experiment_metricId:
  "log_row.metricId (with_experiment l e) = log_row.metricId l"
  by (simp add: with_experiment_def)

lemma second_join_of_matches:
  "map log_of (inner_join log_row.metricId metric_row.metricId with_metric
                 (map (with_experiment l) es) metrics)
   = replicate (length es * length (matching_metrics l metrics)) l"
proof (induction es)
  case Nil
  then show ?case by (simp add: inner_join_Nil)
next
  case (Cons e es)
  have "map log_of (map (with_metric (with_experiment l e)) (matching_metrics l metrics))
        = replicate (length (matching_metrics l metrics)) l"
    by (simp add: map_replicate_const [symmetric] log_of_with_metric comp_def)
  with Cons show ?case
    by (simp add: inner_join_Cons with_experiment_metricId matching_metrics_def
        replicate_add)
qed

lemma join_tables_Nil: "join_tables [] experiments metrics = []"
  by (simp add: join_tables_def inner_join_Nil)

lemma join_tables_Cons:
  "map log_of (join_tables (l # logs) experiments metrics) =
     replicate (length (matching_experiments l experiments)
                * length (matching_metrics l metrics)) l
     @ map log_of (join_tables logs experiments metrics)"
  using second_join_of_matches [of l "matching_experiments l experiments" metrics]
  by (simp add: join_tables_def inner_join_Cons inner_join_append matching_experiments_def)

lemma count_list_replicate:
  "count_list (replicate n x) y = (if x = y then n else 0)"
  by (induction n) auto

lemma join_multiplicity:
  "count_list (map log_of (join_tables logs experiments metrics)) l =
     count_list logs l *
       (length (matching_experiments l experiments) * length (matching_metrics l metrics))"
proof (induction logs)
  case Nil
  then show ?case by (simp add: join_tables_Nil)
next
  case (Cons l' logs)
  then show ?case
    by (simp add: join_tables_Cons count_list_replicate add_mult_distrib)
qed

text \<open>
  C4. A log row whose \<open>expId\<close> equals that of no experiment row, or whose \<open>metricId\<close>
  equals that of no metric row, is the log row of no output row of \<open>join_tables\<close>.
  The function returns a table on every input: there is no error to report.
\<close>

theorem join_tables_drops_unmatched:
  assumes "matching_experiments l experiments = [] \<or> matching_metrics l metrics = []"
  shows "l \<notin> set (map log_of (join_tables logs experiments metrics))"
proof -
  have "count_list (map log_of (join_tables logs experiments metrics)) l = 0"
    using assms by (auto simp: join_multiplicity)
  then show ?thesis
    by (simp add: count_list_0_iff)
qed

theorem join_tables_drops_unmatched_witness:
  "(matching_experiments (hd scenario_logs\<lparr>expId := Some 7\<rparr>) scenario_experiments = []
    \<or> matching_metrics (hd scenario_logs\<lparr>expId := Some 7\<rparr>) load_metrics = [])
   \<and> hd scenario_logs\<lparr>expId := Some 7\<rparr>
       \<notin> set (map log_of (join_tables [hd scenario_logs\<lparr>expId := Some 7\<rparr>]
                                       scenario_experiments load_metrics))"
proof -
  have h: "matching_experiments (hd scenario_logs\<lparr>expId := Some 7\<rparr>) scenario_experiments = []
    \<or> matching_metrics (hd scenario_logs\<lparr>expId := Some 7\<rparr>) load_metrics = []"
    by (simp add: matching_experiments_def scenario_logs_def scenario_experiments_def)
  show ?thesis
    using h join_tables_drops_unmatched [OF h] by blast
qed

text \<open>
  C5. The number of output rows of \<open>join_tables\<close> built from a log row is the number
  of its occurrences in the log table, times the number of experiment rows with its
  \<open>expId\<close>, times the number of metric rows with its \<open>metricId\<close>. So a log row that
  is once in the table, with two experiment rows of its \<open>expId\<close> and one metric row
  of its \<open>metricId\<close>, is there twice.
\<close>

theorem join_tables_fan_out:
  "count_list (map log_of (join_tables logs experiments metrics)) l =
     count_list logs l *
       (length (matching_experiments l experiments) * length (matching_metrics l metrics))
   \<and> (count_list logs l = 1 \<and> length (matching_experiments l experiments) = 2
        \<and> length (matching_metrics l metrics) = 1 \<longrightarrow>
      count_list (map log_of (join_tables logs experiments metrics)) l = 2)"
  by (simp add: join_multiplicity)

theorem join_tables_fan_out_witness:
  "count_list [hd scenario_logs] (hd scenario_logs) = 1
   \<and> length (matching_experiments (hd scenario_logs)
               (scenario_experiments @ scenario_experiments)) = 2
   \<and> length (matching_metrics (hd scenario_logs) load_metrics) = 1
   \<and> count_list (map log_of (join_tables [hd scenario_logs]
                     (scenario_experiments @ scenario_experiments) load_metrics))
                 (hd scenario_logs) = 2"
proof -
  have h: "count_list [hd scenario_logs] (hd scenario_logs) = 1
     \<and> length (matching_experiments (hd scenario_logs)
                 (scenario_experiments @ scenario_experiments)) = 2
     \<and> length (matching_metrics (hd scenario_logs) load_metrics) = 1"
    by (simp add: matching_experiments_def matching_metrics_def scenario_logs_def
        scenario_experiments_def load_metrics_def)
  from join_tables_fan_out [of "[hd scenario_logs]"
         "scenario_experiments @ scenario_experiments" load_metrics "hd scenario_logs"] h
  show ?thesis
    by blast
qed

section \<open>The scenario\<close>

text \<open>
  C1. On the two log records of the scenario, its experiment record and the constant
  metrics table, \<open>join_tables\<close>, then \<open>filter_late_logs\<close> with one hour, then
  \<open>calculate_experiment_final_scores\<close> give the single row of experiment 1 and metric 0
  with maximum and minimum 2; the filter keeps the record \<open>a\<close> alone.
\<close>

theorem end_to_end_scenario:
  "map logId (filter_late_logs (join_tables scenario_logs scenario_experiments load_metrics) 1)
     = [Some ''a'']
   \<and> calculate_experiment_final_scores
       (filter_late_logs (join_tables scenario_logs scenario_experiments load_metrics) 1)
     = [\<lparr>score_row.expId = Some 1, score_row.metricId = Some 0,
         maxValue = Some 2, minValue = Some 2\<rparr>]"
  by code_simp

section \<open>Properties of the timestamp parser\<close>

text \<open>The epoch, a leap day and the last second of a year, as the calendar has them.\<close>

lemma parse_timestamp_examples:
  "parse_timestamp ''1970-01-01T00:00:00'' = Some 0"
  "parse_timestamp ''2000-02-29T12:00:00'' = Some 951825600000000"
  "parse_timestamp ''2023-12-31T23:59:59'' = Some 1704067199000000"
  "parse_timestamp ''2023-02-29T00:00:00'' = None"
  "parse_timestamp ''2024-01-01T24:00:00'' = None"
  "parse_timestamp ''2024-1-1T00:00:00'' = None"
  "parse_timestamp ''2024-01-01t05:00:00'' = Some 1704085200000000"
  "parse_timestamp ''2024-01-01T05:00:00Z'' = None"
  by code_simp+













section \<open>Properties of the filter\<close>

lemma filter_late_logs_eq:
  "filter_late_logs data hours =
     filter_sql (\<lambda>r. greater_sql (time_diff_hours r) hours) (map with_time_diff data)"
  unfolding filter_late_logs_def Let_def map_map
  by (rule arg_cong [where f = "filter_sql _"], rule map_cong [OF refl])
     (simp add: with_time_diff_def time_diff_col_def lag_seconds_def
       joined_row.defs with_created_row.defs with_ingested_row.defs filtered_row.defs
       log_row.defs logs_experiments_row.defs)


lemma time_diff_hours_with_time_diff:
  "time_diff_hours (with_time_diff r) = divide_sql (lag_seconds r) 3600"
  by (simp add: with_time_diff_def joined_row.defs)

lemma valid_with_time_diff:
  "valid (with_time_diff r) = valid r"
  by (simp add: with_time_diff_def joined_row.defs)

lemma with_time_diff_valid_update:
  "with_time_diff (valid_update g r) = valid_update g (with_time_diff r)"
  by (simp add: with_time_diff_def lag_seconds_def joined_row.defs)


lemma created_at_ts_with_time_diff:
  "created_at_ts (with_time_diff r) = to_timestamp (createdAt r)"
  by (simp add: with_time_diff_def joined_row.defs)

lemma ingested_at_ts_with_time_diff:
  "ingested_at_ts (with_time_diff r) = to_timestamp (ingestedAt r)"
  by (simp add: with_time_diff_def joined_row.defs)


lemma greater_sql_divide:
  "(greater_sql (divide_sql l 3600) hours = Some True) =
   (case l of None \<Rightarrow> False | Some s \<Rightarrow> (of_int hours :: rat) < of_int s / 3600)"
  by (cases l) auto

lemma filter_late_logs_is_late:
  "filter_late_logs data hours = map with_time_diff (filter (\<lambda>r. is_late r hours) data)"
  by (simp add: filter_late_logs_eq filter_sql_def filter_map comp_def
      time_diff_hours_with_time_diff greater_sql_divide is_late_def)



lemma is_late_seconds:
  "is_late r hours = (\<exists>s. lag_seconds r = Some s \<and> 3600 * hours < s)"
proof (cases "lag_seconds r")
  case None
  then show ?thesis by (simp add: is_late_def)
next
  case (Some s)
  have "((of_int hours :: rat) < of_int s / 3600) = ((of_int (3600 * hours) :: rat) < of_int s)"
    by (simp add: pos_less_divide_eq mult.commute)
  also have "\<dots> = (3600 * hours < s)"
    by (simp only: of_int_less_iff)
  finally show ?thesis using Some by (simp add: is_late_def)
qed

lemma is_late_antitone: "h1 \<le> h2 \<Longrightarrow> is_late r h2 \<Longrightarrow> is_late r h1"
  by (auto simp: is_late_seconds)



text \<open>
  C10. With thresholds \<open>h1 \<le> h2\<close>, every row that \<open>filter_late_logs\<close> keeps with
  \<open>h2\<close> it keeps with \<open>h1\<close>, and no more often.
\<close>

theorem filter_antitone:
  assumes "h1 \<le> h2"
  shows "set (filter_late_logs data h2) \<subseteq> set (filter_late_logs data h1)
       \<and> count_list (filter_late_logs data h2) f \<le> count_list (filter_late_logs data h1) f"
proof -
  have s: "filter_late_logs data h2 =
           filter (\<lambda>x. greater_sql (time_diff_hours x) h2 = Some True) (filter_late_logs data h1)"
    using is_late_antitone [OF assms]
    by (auto simp: filter_late_logs_is_late filter_map comp_def time_diff_hours_with_time_diff
        greater_sql_divide is_late_def [symmetric]
        intro!: arg_cong [where f = "map with_time_diff"] filter_cong)
  have c: "count_list (filter P zs) f \<le> count_list zs f" for P and zs :: "filtered_row list"
    by (induction zs) auto
  show ?thesis
    by (subst (1 2) s) (auto simp: c)
qed

theorem filter_antitone_witness:
  "(1::int) \<le> 5
   \<and> set (filter_late_logs (join_tables scenario_logs scenario_experiments load_metrics) 5)
       \<subseteq> set (filter_late_logs (join_tables scenario_logs scenario_experiments load_metrics) 1)"
  using filter_antitone [of 1 5 "join_tables scenario_logs scenario_experiments load_metrics"]
  by simp

section \<open>Properties of the filter under a configuration\<close>


lemma to_timestamp_under_cases:
  "to_timestamp_under cf c = Inr (to_timestamp c) \<or> isl (to_timestamp_under cf c)"
  by (auto simp: to_timestamp_under_def to_timestamp_def split: option.splits)











section \<open>Properties of the final scores\<close>

lemma Max_set_Cons2: "Max (set (a # v # xs)) = Max (set (max a v # xs :: rat list))"
  by (cases "xs = []") (simp_all add: max.assoc)

lemma Min_set_Cons2: "Min (set (a # v # xs)) = Min (set (min a v # xs :: rat list))"
  by (cases "xs = []") (simp_all add: min.assoc)

lemma foldl_max_update_Some:
  "foldl max_update (Some a) (map f xs) = Some (Max (set (a # List.map_filter f xs)))"
proof (induction xs arbitrary: a)
  case Nil
  then show ?case by simp
next
  case (Cons x xs)
  show ?case
  proof (cases "f x")
    case None
    then show ?thesis using Cons [of a] by simp
  next
    case (Some v)
    have "Max (set (a # v # List.map_filter f xs)) = Max (set (max a v # List.map_filter f xs))"
      by (rule Max_set_Cons2)
    then show ?thesis using Cons [of "max a v"] Some by simp
  qed
qed

lemma foldl_min_update_Some:
  "foldl min_update (Some a) (map f xs) = Some (Min (set (a # List.map_filter f xs)))"
proof (induction xs arbitrary: a)
  case Nil
  then show ?case by simp
next
  case (Cons x xs)
  show ?case
  proof (cases "f x")
    case None
    then show ?thesis using Cons [of a] by simp
  next
    case (Some v)
    have "Min (set (a # v # List.map_filter f xs)) = Min (set (min a v # List.map_filter f xs))"
      by (rule Min_set_Cons2)
    then show ?thesis using Cons [of "min a v"] Some by simp
  qed
qed

lemma max_sql_greatest: "max_sql (map f xs) = greatest_of (List.map_filter f xs)"
proof (induction xs)
  case Nil
  then show ?case by (simp add: max_sql_def greatest_of_def)
next
  case (Cons x xs)
  then show ?case
    by (cases "f x")
       (simp_all add: max_sql_def greatest_of_def foldl_max_update_Some)
qed

lemma min_sql_least: "min_sql (map f xs) = least_of (List.map_filter f xs)"
proof (induction xs)
  case Nil
  then show ?case by (simp add: min_sql_def least_of_def)
next
  case (Cons x xs)
  then show ?case
    by (cases "f x")
       (simp_all add: min_sql_def least_of_def foldl_min_update_Some)
qed

lemma score_key_scores:
  "map score_key (calculate_experiment_final_scores data) = remdups (map group_key data)"
  by (simp add: calculate_experiment_final_scores_def score_key_def comp_def)

text \<open>
  C3, as the code has it. \<open>calculate_experiment_final_scores\<close> gives one row for
  every distinct pair of \<open>expId\<close> and \<open>metricId\<close> in the table, whose \<open>maxValue\<close> and
  \<open>minValue\<close> are the greatest and the least of the values of the group that are not
  \<open>NULL\<close> (5 and 1 for the values 3, 1, 5 and \<open>NULL\<close>), and are \<open>NULL\<close> when every
  value of the group is: the number of rows is the number of distinct pairs.
\<close>

theorem scores_null_handling:
  "calculate_experiment_final_scores data =
     map (\<lambda>k. \<lparr>score_row.expId = fst k, score_row.metricId = snd k,
               maxValue = greatest_of (group_values k data),
               minValue = least_of (group_values k data)\<rparr>)
         (remdups (map group_key data))
   \<and> length (calculate_experiment_final_scores data) = card (group_key ` set data)
   \<and> max_sql [Some 3, Some 1, Some 5, None] = Some 5
   \<and> min_sql [Some 3, Some 1, Some 5, None] = Some 1"
proof -
  have "length (calculate_experiment_final_scores data) = length (remdups (map group_key data))"
    by (simp add: calculate_experiment_final_scores_def)
  also have "\<dots> = card (group_key ` set data)"
    by (simp add: length_remdups_card_conv)
  finally have n: "length (calculate_experiment_final_scores data) = card (group_key ` set data)" .
  have e: "max_sql [Some 3, Some 1, Some 5, None] = Some 5"
          "min_sql [Some 3, Some 1, Some 5, None] = Some 1"
    by (simp_all add: max_sql_def min_sql_def)
  show ?thesis
    using n e
    by (simp add: calculate_experiment_final_scores_def group_values_def max_sql_greatest
        min_sql_least)
qed

theorem scores_null_handling_witness:
  "calculate_experiment_final_scores
     [log_with_value (Some 3), log_with_value (Some 1), log_with_value (Some 5), log_with_value None]
   = [\<lparr>score_row.expId = Some 1, score_row.metricId = Some 0, maxValue = Some 5, minValue = Some 1\<rparr>]"
proof -
  have g: "remdups (map group_key [log_with_value (Some 3), log_with_value (Some 1),
             log_with_value (Some 5), log_with_value None]) = [(Some 1, Some 0)]"
    by code_simp
  have v: "group_values (Some 1, Some 0) [log_with_value (Some 3), log_with_value (Some 1),
             log_with_value (Some 5), log_with_value None] = [3, 1, 5]"
    by code_simp
  have m: "greatest_of [3, 1, 5] = Some 5" "least_of [3, 1, 5] = Some 1"
    by (simp_all add: greatest_of_def least_of_def)
  from scores_null_handling [of "[log_with_value (Some 3), log_with_value (Some 1),
             log_with_value (Some 5), log_with_value None]"]
  have "calculate_experiment_final_scores
          [log_with_value (Some 3), log_with_value (Some 1), log_with_value (Some 5),
           log_with_value None]
        = map (\<lambda>k. \<lparr>score_row.expId = fst k, score_row.metricId = snd k,
               maxValue = greatest_of (group_values k [log_with_value (Some 3),
                  log_with_value (Some 1), log_with_value (Some 5), log_with_value None]),
               minValue = least_of (group_values k [log_with_value (Some 3),
                  log_with_value (Some 1), log_with_value (Some 5), log_with_value None])\<rparr>)
            (remdups (map group_key [log_with_value (Some 3), log_with_value (Some 1),
               log_with_value (Some 5), log_with_value None]))"
    by (rule conjunct1)
  then show ?thesis
    unfolding g by (simp add: v m)
qed

text \<open>
  C3, as the claim states it, fails on a table of one row whose value is \<open>NULL\<close>: the
  group is not dropped, so there is one output row and no pair with a value.
\<close>

theorem all_null_group_dropped_counterexample:
  "\<not> (length (calculate_experiment_final_scores [log_with_value None])
        = length (keys_with_value [log_with_value None]))
   \<and> calculate_experiment_final_scores [log_with_value None]
     = [\<lparr>score_row.expId = Some 1, score_row.metricId = Some 0, maxValue = None, minValue = None\<rparr>]"
  by code_simp

text \<open>
  C7. The rows of \<open>calculate_experiment_final_scores\<close> are records of the four columns
  \<open>expId\<close>, \<open>metricId\<close> (32-bit integers), \<open>maxValue\<close> and \<open>minValue\<close> (floats), no
  two of them with the same pair of \<open>expId\<close> and \<open>metricId\<close>, and their pairs are
  those of the input table.
\<close>

theorem scores_one_row_per_pair:
  "distinct (map score_key (calculate_experiment_final_scores data))
   \<and> set (map score_key (calculate_experiment_final_scores data)) = set (map group_key data)"
  by (simp add: score_key_scores)

section \<open>The column \<open>valid\<close>\<close>

lemma inner_join_map_left:
  assumes "\<And>l. lkey (h l) = lkey l" and "\<And>l r. row (h l) r = h' (row l r)"
  shows "inner_join lkey rkey row (map h ls) rs = map h' (inner_join lkey rkey row ls rs)"
  by (induction ls) (simp_all add: inner_join_Nil inner_join_Cons assms)

lemma join_tables_valid_update:
  "join_tables (map (valid_update g) logs) experiments metrics =
     map (valid_update g) (join_tables logs experiments metrics)"
proof -
  have 1: "inner_join log_row.expId experiment_row.expId with_experiment
             (map (valid_update g) logs) experiments
           = map (valid_update g)
               (inner_join log_row.expId experiment_row.expId with_experiment logs experiments)"
    by (rule inner_join_map_left) (simp_all add: with_experiment_def)
  have 2: "inner_join log_row.metricId metric_row.metricId with_metric
             (map (valid_update g) les) metrics
           = map (valid_update g)
               (inner_join log_row.metricId metric_row.metricId with_metric les metrics)" for les
    by (rule inner_join_map_left) (simp_all add: with_metric_def)
  show ?thesis
    by (simp add: join_tables_def 1 2)
qed

lemma is_late_valid_update: "is_late (valid_update g r) hours = is_late r hours"
  by (simp add: is_late_def lag_seconds_def)

lemma filter_late_logs_valid_update:
  "filter_late_logs (map (valid_update g) data) hours =
     map (valid_update g) (filter_late_logs data hours)"
  by (simp add: filter_late_logs_is_late filter_map comp_def is_late_valid_update
      with_time_diff_valid_update)

lemma scores_valid_update:
  "calculate_experiment_final_scores (map (valid_update g) data) =
     calculate_experiment_final_scores data"
proof -
  have k: "group_key \<circ> valid_update g = (group_key :: 'a log_row_scheme \<Rightarrow> _)"
    by (rule ext) (simp add: group_key_def)
  have "map value (group_of x (map (valid_update g) data)) = map value (group_of x data)" for x
    by (simp add: group_of_def filter_map comp_def group_key_def)
  then show ?thesis
    by (simp add: calculate_experiment_final_scores_def k)
qed

text \<open>
  C8. Every output row that \<open>join_tables\<close> builds from a log row has the \<open>valid\<close> of
  that row, and every row that \<open>filter_late_logs\<close> builds from a joined row has the
  \<open>valid\<close> of that one. No stage looks at the column: changing \<open>valid\<close> in the input
  by any function changes \<open>valid\<close> in the output of the join and of the filter by that
  function and nothing else, and leaves the final scores as they are.
\<close>

theorem valid_passes_through:
  "map valid (join_tables [l] experiments metrics)
     = replicate (length (join_tables [l] experiments metrics)) (valid l)
   \<and> map valid (filter_late_logs [r] hours)
     = replicate (length (filter_late_logs [r] hours)) (valid r)
   \<and> join_tables (map (valid_update g) logs) experiments metrics
     = map (valid_update g) (join_tables logs experiments metrics)
   \<and> filter_late_logs (map (valid_update g) data) hours
     = map (valid_update g) (filter_late_logs data hours)
   \<and> calculate_experiment_final_scores (map (valid_update g) (filter_late_logs data hours))
     = calculate_experiment_final_scores (filter_late_logs data hours)"
proof -
  let ?J = "join_tables [l] experiments metrics"
  obtain n where r: "map log_of ?J = replicate n l"
    using join_tables_Cons [of l "[]" experiments metrics] by (simp add: join_tables_Nil)
  then have n: "n = length ?J"
    by (metis length_map length_replicate)
  have "valid \<circ> log_of = valid"
    by (rule ext) (simp add: log_of_def log_row.truncate_def)
  then have "map valid ?J = map valid (map log_of ?J)"
    by simp
  also have "\<dots> = replicate (length ?J) (valid l)"
    unfolding r n [symmetric] by simp
  finally have j: "map valid ?J = replicate (length ?J) (valid l)" .
  have f: "map valid (filter_late_logs [r] hours)
     = replicate (length (filter_late_logs [r] hours)) (valid r)"
    by (simp add: filter_late_logs_is_late valid_with_time_diff)
  show ?thesis
    using j f
    by (simp add: join_tables_valid_update filter_late_logs_valid_update scores_valid_update)
qed

theorem valid_passes_through_witness:
  "map valid (join_tables (map (valid_update (\<lambda>v. Some False)) scenario_logs)
                 scenario_experiments load_metrics)
   = [Some False, Some False]
   \<and> map logId (filter_late_logs (join_tables (map (valid_update (\<lambda>v. Some False)) scenario_logs)
                 scenario_experiments load_metrics) 1)
   = [Some ''a'']"
proof -
  have a: "map (valid \<circ> valid_update (\<lambda>v. Some False))
             (join_tables scenario_logs scenario_experiments load_metrics)
           = [Some False, Some False]"
    by code_simp
  have b: "map (logId \<circ> valid_update (\<lambda>v. Some False))
             (filter_late_logs (join_tables scenario_logs scenario_experiments load_metrics) 1)
           = [Some ''a'']"
    by code_simp
  note t = valid_passes_through [of _ scenario_experiments load_metrics _ 1 "\<lambda>v. Some False"
      scenario_logs "join_tables scenario_logs scenario_experiments load_metrics"]
  from t have j: "join_tables (map (valid_update (\<lambda>v. Some False)) scenario_logs)
                    scenario_experiments load_metrics
                  = map (valid_update (\<lambda>v. Some False))
                      (join_tables scenario_logs scenario_experiments load_metrics)"
    by blast
  from t have f: "filter_late_logs (map (valid_update (\<lambda>v. Some False))
                      (join_tables scenario_logs scenario_experiments load_metrics)) 1
                  = map (valid_update (\<lambda>v. Some False))
                      (filter_late_logs
                         (join_tables scenario_logs scenario_experiments load_metrics) 1)"
    by blast
  show ?thesis
    unfolding j f map_map by (rule conjI [OF a b])
qed

section \<open>Properties of the Spark session\<close>

text \<open>
  C9. When the engine's call raises, \<open>get_spark\<close> raises the same exception to its
  caller, having called the engine once; when what is raised is an \<open>Exception\<close>, the
  message with the error has been printed before. When the engine's call returns a
  session, \<open>get_spark\<close> returns it and prints nothing.
\<close>

theorem get_spark_propagates:
  "(getOrCreate master app_name (calls w) = Inl e \<longrightarrow>
      fst (get_spark getOrCreate master app_name w) = Inl e
      \<and> calls (snd (get_spark getOrCreate master app_name w)) = calls w + 1)
   \<and> (getOrCreate master app_name (calls w) = Inl (Exception msg) \<longrightarrow>
      printed (snd (get_spark getOrCreate master app_name w))
        = printed w @ [''Error initializing Spark session: '' @ msg])
   \<and> (getOrCreate master app_name (calls w) = Inr spark \<longrightarrow>
      get_spark getOrCreate master app_name w = (Inr spark, w\<lparr>calls := calls w + 1\<rparr>))"
  by (auto simp: get_spark_def Let_def split: sum.splits raised.splits)

theorem get_spark_propagates_witness:
  "get_spark (\<lambda>m a n. if n = 0 then Inl (Exception ''no such master'') else Inr (m, a))
      ''locl'' ''ML Logs Transformer'' \<lparr>printed = [], calls = 0\<rparr>
   = (Inl (Exception ''no such master''),
      \<lparr>printed = [''Error initializing Spark session: no such master''], calls = 1\<rparr>)
   \<and> get_spark (\<lambda>m a n. if n = 0 then Inl (Exception ''no such master'') else Inr (m, a))
      ''local[1]'' ''ML Logs Transformer'' \<lparr>printed = [], calls = 1\<rparr>
   = (Inr (''local[1]'', ''ML Logs Transformer''), \<lparr>printed = [], calls = 2\<rparr>)"
proof -
  let ?e = "\<lambda>m a n. if n = (0::nat) then Inl (Exception ''no such master'') else Inr (m, a)"
  let ?w = "\<lparr>printed = [], calls = 0\<rparr>"
  have h: "?e ''locl'' ''ML Logs Transformer'' (calls ?w) = Inl (Exception ''no such master'')"
    by simp
  from get_spark_propagates [of ?e "''locl''" "''ML Logs Transformer''" ?w
        "Exception ''no such master''" "''no such master''"] h
  have 1: "fst (get_spark ?e ''locl'' ''ML Logs Transformer'' ?w) = Inl (Exception ''no such master'')"
    and 2: "calls (snd (get_spark ?e ''locl'' ''ML Logs Transformer'' ?w)) = 1"
    and 3: "printed (snd (get_spark ?e ''locl'' ''ML Logs Transformer'' ?w))
            = [''Error initializing Spark session: no such master'']"
    by simp_all
  have "get_spark ?e ''locl'' ''ML Logs Transformer'' ?w
        = (Inl (Exception ''no such master''),
           \<lparr>printed = [''Error initializing Spark session: no such master''], calls = 1\<rparr>)"
    using 1 2 3 by (cases "get_spark ?e ''locl'' ''ML Logs Transformer'' ?w") (simp add: world.equality)
  moreover have "get_spark ?e ''local[1]'' ''ML Logs Transformer'' \<lparr>printed = [], calls = 1\<rparr>
   = (Inr (''local[1]'', ''ML Logs Transformer''), \<lparr>printed = [], calls = 2\<rparr>)"
    by (simp add: get_spark_def)
  ultimately show ?thesis by blast
qed

end
